theory Spec2Isabelle
  imports Main "HOL-Library.Multiset"
begin

section \<open>Data model\<close>

text \<open>
  The program reads rows of the products table (tuples of an identifier followed by
  attributes), groups them by attribute values into dictionaries nested in dictionaries,
  draws a recommendation of products for every attribute permutation, and prepares the
  result for a bulk insert.

  A row is a tuple, modelled as the list of its fields. A recommendation is the list of
  rows drawn for one attribute permutation. A Python dictionary keeps its keys in
  insertion order, and the program iterates over it, so it is an association list.
  The argument \<open>data\<close> of the recommender is either a dictionary or a list of rows
  (the test \<open>isinstance(data, dict)\<close>): a datatype with one constructor for each.
\<close>

datatype error = IndexError | ValueError

type_synonym 'a entry = "'a list"

type_synonym 'a recommendation = "'a entry list"

datatype 'a grouped = Entries "'a entry list" | Dict "('a \<times> 'a grouped) list"

text \<open>
  The module \<open>random\<close> is modelled by the sequence of the numbers it will deliver:
  every draw reads the head of the sequence and leaves the rest. A property that holds
  for every sequence holds for every run.
\<close>

type_synonym rng = "nat \<Rightarrow> nat"

section \<open>Python primitives\<close>

text \<open>
  \<open>t[i]\<close> on a tuple or list: a negative index counts from the end, and an index
  outside \<open>-len(t) .. len(t) - 1\<close> raises IndexError.
\<close>

definition subscript :: "'b list \<Rightarrow> int \<Rightarrow> error + 'b" where
  "subscript t i =
     (if 0 \<le> i \<and> i < int (length t) then Inr (t ! nat i)
      else if i < 0 \<and> - int (length t) \<le> i then Inr (t ! nat (int (length t) + i))
      else Inl IndexError)"

definition randbelow :: "nat \<Rightarrow> rng \<Rightarrow> nat \<times> rng" where
  "randbelow n g = (g 0 mod n, \<lambda>i. g (Suc i))"

text \<open>\<open>random.choice(seq)\<close>: one element of the sequence; IndexError when it is empty.\<close>

definition choice :: "'b list \<Rightarrow> rng \<Rightarrow> error + ('b \<times> rng)" where
  "choice seq g =
     (if seq = [] then Inl IndexError
      else Inr (seq ! fst (randbelow (length seq) g), snd (randbelow (length seq) g)))"

text \<open>
  \<open>random.sample(population, k)\<close>: the elements at \<open>k\<close> different positions of the
  population, in the order drawn; ValueError when the population has fewer than \<open>k\<close>
  elements. Each draw takes one of the positions that are left.
\<close>

fun draw :: "'b list \<Rightarrow> nat \<Rightarrow> rng \<Rightarrow> 'b list \<times> rng" where
  "draw population 0 g = ([], g)"
| "draw population (Suc k) g =
     (let i = fst (randbelow (length population) g);
          (rest, g') = draw (take i population @ drop (Suc i) population) k
                         (snd (randbelow (length population) g))
      in (population ! i # rest, g'))"

definition sample :: "'b list \<Rightarrow> nat \<Rightarrow> rng \<Rightarrow> error + ('b list \<times> rng)" where
  "sample population k g =
     (if length population < k then Inl ValueError else Inr (draw population k g))"

section \<open>The insert query\<close>

text \<open>
  \<open>construct_insert_query\<close>: the names of the columns separated by commas, then one
  \<open>%s\<close> for each. \<open>var_names[0]\<close> raises IndexError on an empty list.
\<close>

definition construct_insert_query :: "string \<Rightarrow> string list \<Rightarrow> error + string" where
  "construct_insert_query table_name var_names =
     (case var_names of
        [] \<Rightarrow> Inl IndexError
      | first_name # others \<Rightarrow>
          Inr (''INSERT INTO '' @ table_name @ '' ('' @ first_name
               @ concat (map (\<lambda>var. '', '' @ var) others)
               @ '') VALUES (%s'' @ concat (replicate (length var_names - 1) '', %s'')
               @ '');''))"

text \<open>The query the script builds for its bulk insert (the line before the last).\<close>

definition query :: "error + string" where
  "query = construct_insert_query ''Content_filtered'' [''Category'', ''Brand'']"

section \<open>Grouping\<close>

text \<open>
  The body of the first loop of \<open>group_data_by_unique_identifiers\<close>: the entry joins
  the list of its identifier, or a new key is added after the others.
\<close>

fun add_entry ::
  "'a \<Rightarrow> 'a entry \<Rightarrow> ('a \<times> 'a entry list) list \<Rightarrow> ('a \<times> 'a entry list) list" where
  "add_entry identifier entry [] = [(identifier, [entry])]"
| "add_entry identifier entry ((k, v) # rest) =
     (if identifier = k then (k, v @ [entry]) # rest
      else (k, v) # add_entry identifier entry rest)"

text \<open>
  The first loop. \<open>index_list[0]\<close> is evaluated for every entry: it raises IndexError
  on an empty index list, and the subscript of the entry raises it out of range; with no
  entry, nothing is evaluated.
\<close>

fun unique_identifiers ::
  "'a entry list \<Rightarrow> int list \<Rightarrow> ('a \<times> 'a entry list) list
   \<Rightarrow> error + ('a \<times> 'a entry list) list" where
  "unique_identifiers [] index_list d = Inr d"
| "unique_identifiers (entry # rest) index_list d =
     (case index_list of
        [] \<Rightarrow> Inl IndexError
      | i # _ \<Rightarrow>
          (case subscript entry i of
             Inl e \<Rightarrow> Inl e
           | Inr identifier \<Rightarrow> unique_identifiers rest index_list (add_entry identifier entry d)))"

text \<open>The second loop: every value is replaced by its grouping, the first error ends it.\<close>

fun regroup ::
  "('a entry list \<Rightarrow> error + 'a grouped) \<Rightarrow> ('a \<times> 'a entry list) list
   \<Rightarrow> error + ('a \<times> 'a grouped) list" where
  "regroup f [] = Inr []"
| "regroup f ((k, v) # rest) =
     (case f v of
        Inl e \<Rightarrow> Inl e
      | Inr t \<Rightarrow> (case regroup f rest of Inl e \<Rightarrow> Inl e | Inr ts \<Rightarrow> Inr ((k, t) # ts)))"

fun group_data_by_unique_identifiers :: "'a entry list \<Rightarrow> int list \<Rightarrow> error + 'a grouped" where
  "group_data_by_unique_identifiers dataset index_list =
     (case unique_identifiers dataset index_list [] of
        Inl e \<Rightarrow> Inl e
      | Inr d \<Rightarrow>
          if 1 < length index_list
          then (case regroup (\<lambda>v. group_data_by_unique_identifiers v (tl index_list)) d of
                  Inl e \<Rightarrow> Inl e
                | Inr d' \<Rightarrow> Inr (Dict d'))
          else Inr (Dict (map (\<lambda>(k, v). (k, Entries v)) d)))"

declare group_data_by_unique_identifiers.simps [simp del]

section \<open>Recommending\<close>

text \<open>
  The inner loop of the first fallback, \<open>n\<close> rounds of
  \<open>dataset[index].append(random.choice(random.choice(dataset)))\<close>.
\<close>

fun borrow ::
  "'a recommendation list \<Rightarrow> nat \<Rightarrow> nat \<Rightarrow> rng \<Rightarrow> error + ('a recommendation list \<times> rng)" where
  "borrow dataset index 0 g = Inr (dataset, g)"
| "borrow dataset index (Suc n) g =
     (case choice dataset g of
        Inl e \<Rightarrow> Inl e
      | Inr (r, g1) \<Rightarrow>
          (case choice r g1 of
             Inl e \<Rightarrow> Inl e
           | Inr (random_datapoint, g2) \<Rightarrow>
               borrow (dataset[index := dataset ! index @ [random_datapoint]]) index n g2))"

text \<open>
  The inner loop of the second fallback, \<open>n\<close> rounds of
  \<open>dataset[index].append(random.choice(original_dataset))\<close>.
\<close>

fun add_random ::
  "'a recommendation list \<Rightarrow> nat \<Rightarrow> 'a entry list \<Rightarrow> nat \<Rightarrow> rng
   \<Rightarrow> error + ('a recommendation list \<times> rng)" where
  "add_random dataset index original_dataset 0 g = Inr (dataset, g)"
| "add_random dataset index original_dataset (Suc n) g =
     (case choice original_dataset g of
        Inl e \<Rightarrow> Inl e
      | Inr (random_datapoint, g1) \<Rightarrow>
          add_random (dataset[index := dataset ! index @ [random_datapoint]]) index
            original_dataset n g1)"

text \<open>
  The loop over the incomplete indexes. \<open>incomplete_indexes\<close> is the whole list (the
  loop does not change it), \<open>todo\<close> what is left of it. The result carries
  \<open>able_to_complete_datapoints\<close>. \<open>range(len(dataset[index]), recommendation_amount)\<close>
  has \<open>recommendation_amount - len(dataset[index])\<close> elements, none when the
  difference is negative, and \<open>dataset[index]\<close> raises IndexError out of range.
\<close>

fun finish ::
  "'a recommendation list \<Rightarrow> nat list \<Rightarrow> nat list \<Rightarrow> 'a entry list \<Rightarrow> nat \<Rightarrow> nat \<Rightarrow> rng
   \<Rightarrow> error + ('a recommendation list \<times> bool \<times> rng)" where
  "finish dataset incomplete_indexes [] original_dataset current_level recommendation_amount g =
     Inr (dataset, True, g)"
| "finish dataset incomplete_indexes (index # todo) original_dataset current_level
      recommendation_amount g =
     (if int recommendation_amount \<le> int (length dataset) - int (length incomplete_indexes)
      then
        (if length dataset \<le> index then Inl IndexError
         else
           (case borrow dataset index (recommendation_amount - length (dataset ! index)) g of
              Inl e \<Rightarrow> Inl e
            | Inr (dataset', g') \<Rightarrow>
                finish dataset' incomplete_indexes todo original_dataset current_level
                  recommendation_amount g'))
      else if current_level = 0
      then
        (if length dataset \<le> index then Inl IndexError
         else
           (case add_random dataset index original_dataset
                   (recommendation_amount - length (dataset ! index)) g of
              Inl e \<Rightarrow> Inl e
            | Inr (dataset', g') \<Rightarrow>
                finish dataset' incomplete_indexes todo original_dataset current_level
                  recommendation_amount g'))
      else Inr (dataset, False, g))"

text \<open>
  \<open>content_filter_recommendations_from_grouped_data\<close>, and \<open>unpack\<close>, its loop over
  the items of a dictionary with the state \<open>(dataset, incomplete_indexes,
  current_index_in_dataset)\<close>. The call one layer deeper passes \<open>current_level + 1\<close>
  and no \<open>recommendation_amount\<close>, which is then the default, 4.
\<close>

fun content_filter_recommendations_from_grouped_data ::
  "'a grouped \<Rightarrow> 'a entry list \<Rightarrow> nat \<Rightarrow> nat \<Rightarrow> rng
   \<Rightarrow> error + ('a recommendation list \<times> nat list \<times> rng)"
and unpack ::
  "('a \<times> 'a grouped) list \<Rightarrow> 'a entry list \<Rightarrow> nat
   \<Rightarrow> 'a recommendation list \<Rightarrow> nat list \<Rightarrow> nat \<Rightarrow> rng
   \<Rightarrow> error + ('a recommendation list \<times> nat list \<times> nat \<times> rng)" where
  "content_filter_recommendations_from_grouped_data (Dict items) original_dataset
      current_level recommendation_amount g =
     (case unpack items original_dataset current_level [] [] 0 g of
        Inl e \<Rightarrow> Inl e
      | Inr (dataset, incomplete_indexes, current_index_in_dataset, g1) \<Rightarrow>
          (case finish dataset incomplete_indexes incomplete_indexes original_dataset
                  current_level recommendation_amount g1 of
             Inl e \<Rightarrow> Inl e
           | Inr (dataset', able_to_complete_datapoints, g2) \<Rightarrow>
               Inr (dataset', if able_to_complete_datapoints then [] else incomplete_indexes,
                    g2)))"
| "content_filter_recommendations_from_grouped_data (Entries data) original_dataset
      current_level recommendation_amount g =
     (if length data < recommendation_amount
      then (case sample data (min recommendation_amount (length data)) g of
              Inl e \<Rightarrow> Inl e
            | Inr (r, g') \<Rightarrow> Inr ([r], [0], g'))
      else (case sample data recommendation_amount g of
              Inl e \<Rightarrow> Inl e
            | Inr (r, g') \<Rightarrow> Inr ([r], [], g')))"
| "unpack [] original_dataset current_level dataset incomplete_indexes
      current_index_in_dataset g =
     Inr (dataset, incomplete_indexes, current_index_in_dataset, g)"
| "unpack ((k, v) # rest) original_dataset current_level dataset incomplete_indexes
      current_index_in_dataset g =
     (case content_filter_recommendations_from_grouped_data v original_dataset
             (current_level + 1) 4 g of
        Inl e \<Rightarrow> Inl e
      | Inr (result_from_one_layer_deeper, incomplete_data, g1) \<Rightarrow>
          unpack rest original_dataset current_level
            (dataset @ result_from_one_layer_deeper)
            (incomplete_indexes @ map (\<lambda>x. x + current_index_in_dataset) incomplete_data)
            (current_index_in_dataset + length result_from_one_layer_deeper) g1)"

section \<open>Exporting\<close>

text \<open>
  The body of the loop of \<open>content_filter_result_to_useful_SQL_dataset\<close>: the
  attributes of the first product of the recommendation, then the identifier of every
  product. \<open>recommendation[0]\<close> and \<open>product[0]\<close> raise IndexError on an empty
  recommendation and an empty tuple; the slice \<open>[1:]\<close> never raises.
\<close>

fun product_ids :: "'a recommendation \<Rightarrow> error + 'a list" where
  "product_ids [] = Inr []"
| "product_ids (product # rest) =
     (case subscript product 0 of
        Inl e \<Rightarrow> Inl e
      | Inr i \<Rightarrow> (case product_ids rest of Inl e \<Rightarrow> Inl e | Inr ids \<Rightarrow> Inr (i # ids)))"

definition result_data :: "'a recommendation \<Rightarrow> error + 'a list" where
  "result_data recommendation =
     (case subscript recommendation 0 of
        Inl e \<Rightarrow> Inl e
      | Inr first_product \<Rightarrow>
          (case product_ids recommendation of
             Inl e \<Rightarrow> Inl e
           | Inr ids \<Rightarrow> Inr (tl first_product @ ids)))"

text \<open>
  The loop over \<open>data[0]\<close>, the recommendations of the pair the recommender returned.
  Every round builds \<open>result_data\<close> anew and prints the recommendation; the model keeps
  what was printed. The function has no \<open>return\<close>: after the loop it returns Python's
  \<open>None\<close>, here \<open>None\<close>, where a returned list of rows would be \<open>Some rows\<close>.
\<close>

fun export_loop :: "'a recommendation list \<Rightarrow> 'a recommendation list
   \<Rightarrow> error + 'a recommendation list" where
  "export_loop [] printed = Inr printed"
| "export_loop (recommendation # rest) printed =
     (case result_data recommendation of
        Inl e \<Rightarrow> Inl e
      | Inr row \<Rightarrow> export_loop rest (printed @ [recommendation]))"

definition content_filter_result_to_useful_SQL_dataset ::
  "'a recommendation list \<times> nat list \<Rightarrow> error + ('a list list option \<times> 'a recommendation list)" where
  "content_filter_result_to_useful_SQL_dataset data =
     (case export_loop (fst data) [] of
        Inl e \<Rightarrow> Inl e
      | Inr printed \<Rightarrow> Inr (None, printed))"

section \<open>Notions the properties are stated with\<close>

text \<open>The lists of entries at the leaves of a grouping, from the first key to the last.\<close>

fun leaves :: "'a grouped \<Rightarrow> 'a entry list list" where
  "leaves (Entries data) = [data]"
| "leaves (Dict items) = concat (map (\<lambda>(k, v). leaves v) items)"

text \<open>The positions Python accepts as a subscript of a tuple.\<close>

definition in_range :: "'b list \<Rightarrow> int \<Rightarrow> bool" where
  "in_range t i = (- int (length t) \<le> i \<and> i < int (length t))"

text \<open>Six products, five of one category and brand and one of another.\<close>

definition products :: "string entry list" where
  "products =
     [[''1'', ''A'', ''X''], [''2'', ''A'', ''X''], [''3'', ''A'', ''X''],
      [''4'', ''A'', ''X''], [''5'', ''A'', ''X''], [''6'', ''B'', ''Y'']]"

section \<open>The grouping is a partition\<close>

lemma subscript_in_range: "in_range t i \<Longrightarrow> \<exists>x. subscript t i = Inr x"
  by (auto simp: subscript_def in_range_def)

lemma subscript_out_of_range: "\<not> in_range t i \<Longrightarrow> subscript t i = Inl IndexError"
  by (auto simp: subscript_def in_range_def)

lemma mset_add_entry:
  "mset (concat (map snd (add_entry k e d))) = mset (concat (map snd d)) + {#e#}"
  by (induction k e d rule: add_entry.induct) auto

lemma mset_unique_identifiers:
  "unique_identifiers ds il d = Inr d' \<Longrightarrow>
   mset (concat (map snd d')) = mset (concat (map snd d)) + mset ds"
  by (induction ds il d rule: unique_identifiers.induct)
     (auto simp: mset_add_entry split: list.splits sum.splits)

lemma unique_identifiers_total:
  "il \<noteq> [] \<Longrightarrow> \<forall>e\<in>set ds. in_range e (hd il) \<Longrightarrow> \<exists>d'. unique_identifiers ds il d = Inr d'"
proof (induction ds il d rule: unique_identifiers.induct)
  case (1 index_list d)
  then show ?case by simp
next
  case (2 entry rest index_list d)
  then obtain i others where il: "index_list = i # others" by (cases index_list) auto
  with 2 obtain x where x: "subscript entry i = Inr x"
    using subscript_in_range[of entry i] by auto
  with 2 il show ?case by auto
qed

lemma regroup_leaves:
  "\<forall>v\<in>snd ` set d. \<exists>t. f v = Inr t \<and> mset (concat (leaves t)) = mset v \<Longrightarrow>
   \<exists>d'. regroup f d = Inr d' \<and>
     mset (concat (leaves (Dict d'))) = mset (concat (map snd d))"
proof (induction f d rule: regroup.induct)
  case (1 f)
  then show ?case by simp
next
  case (2 f k v rest)
  then obtain t where t: "f v = Inr t" "mset (concat (leaves t)) = mset v" by auto
  from 2 obtain d' where d': "regroup f rest = Inr d'"
     "mset (concat (leaves (Dict d'))) = mset (concat (map snd rest))" using t by auto
  show ?case using t d' by simp
qed

lemma leaves_map_Entries:
  "concat (leaves (Dict (map (\<lambda>(k, v). (k, Entries v)) d))) = concat (map snd d)"
  by (induction d) auto

lemma group_data_leaves:
  "index_list \<noteq> [] \<Longrightarrow> \<forall>e\<in>set dataset. \<forall>i\<in>set index_list. in_range e i \<Longrightarrow>
   \<exists>t. group_data_by_unique_identifiers dataset index_list = Inr t \<and>
       mset (concat (leaves t)) = mset dataset"
proof (induction dataset index_list rule: group_data_by_unique_identifiers.induct)
  case (1 dataset index_list)
  from 1(2,3) have "\<forall>e\<in>set dataset. in_range e (hd index_list)"
    by (cases index_list) auto
  with 1(2) obtain d where d: "unique_identifiers dataset index_list [] = Inr d"
    using unique_identifiers_total by blast
  then have m: "mset (concat (map snd d)) = mset dataset"
    using mset_unique_identifiers[OF d] by simp
  show ?case
  proof (cases "1 < length index_list")
    case True
    have "\<forall>v\<in>snd ` set d. \<exists>t. group_data_by_unique_identifiers v (tl index_list) = Inr t
            \<and> mset (concat (leaves t)) = mset v"
    proof
      fix v assume v: "v \<in> snd ` set d"
      then have "set v \<subseteq> set (concat (map snd d))" by auto
      also have "\<dots> = set dataset" using m by (metis set_mset_mset)
      finally have sub: "set v \<subseteq> set dataset" .
      have ne: "tl index_list \<noteq> []" using True by (cases index_list) auto
      have "\<forall>e\<in>set v. \<forall>i\<in>set (tl index_list). in_range e i"
        using sub 1(3) by (meson in_mono list.set_sel(2) 1(2))
      with 1(1)[OF d True ne] show "\<exists>t. group_data_by_unique_identifiers v (tl index_list) = Inr t
            \<and> mset (concat (leaves t)) = mset v" by blast
    qed
    from regroup_leaves[OF this] obtain d' where
      "regroup (\<lambda>v. group_data_by_unique_identifiers v (tl index_list)) d = Inr d'"
      "mset (concat (leaves (Dict d'))) = mset (concat (map snd d))" by blast
    with d m True show ?thesis
      by (subst group_data_by_unique_identifiers.simps) simp
  next
    case False
    with d m leaves_map_Entries[of d] show ?thesis
      by (subst group_data_by_unique_identifiers.simps) (simp del: leaves.simps)
  qed
qed

text \<open>
  Claim C2. For every list of entries and every index list that is not empty and whose
  indexes are positions of every entry, \<open>group_data_by_unique_identifiers\<close> returns a
  grouping, and the entries of its leaves, taken together as a multiset, are the entries
  of the dataset: none is lost and none is there twice.
\<close>

theorem partition_totality:
  "index_list \<noteq> [] \<Longrightarrow> \<forall>e\<in>set dataset. \<forall>i\<in>set index_list. in_range e i \<Longrightarrow>
   \<exists>t. group_data_by_unique_identifiers dataset index_list = Inr t \<and>
       mset (concat (leaves t)) = mset dataset"
  by (rule group_data_leaves)

theorem partition_totality_witness:
  "\<exists>t. group_data_by_unique_identifiers products [1, 2] = Inr t \<and>
       mset (concat (leaves t)) = mset products"
proof -
  have h: "\<forall>e\<in>set products. \<forall>i\<in>set [1, 2]. in_range e i"
    by (simp add: products_def in_range_def)
  show ?thesis using partition_totality[OF _ h] by simp
qed

section \<open>The export and the insert query\<close>

text \<open>
  Claim C7. The claim is that the export of a batch of M recommendations returns M
  rows, each the attributes followed by the identifiers. The function returns no rows:
  on the two recommendations drawn for the six products it returns \<open>None\<close>, having
  printed both.
\<close>

theorem export_returns_none:
  "content_filter_result_to_useful_SQL_dataset
     ([[[''1'', ''A'', ''X''], [''2'', ''A'', ''X''], [''3'', ''A'', ''X''], [''4'', ''A'', ''X'']],
       [[''6'', ''B'', ''Y''], [''1'', ''A'', ''X''], [''1'', ''A'', ''X''], [''1'', ''A'', ''X'']]],
      []) =
   Inr (None,
     [[[''1'', ''A'', ''X''], [''2'', ''A'', ''X''], [''3'', ''A'', ''X''], [''4'', ''A'', ''X'']],
      [[''6'', ''B'', ''Y''], [''1'', ''A'', ''X''], [''1'', ''A'', ''X''], [''1'', ''A'', ''X'']]])"
  by (simp add: content_filter_result_to_useful_SQL_dataset_def result_data_def subscript_def)

text \<open>
  Claim C9. The claim is that the insert query names the attribute columns and then the
  four recommendation columns. The query of the script names the two attribute columns
  only, with two placeholders.
\<close>

theorem query_names_two_columns:
  "query = Inr ''INSERT INTO Content_filtered (Category, Brand) VALUES (%s, %s);''"
  by (simp add: query_def construct_insert_query_def)

end
